theory Spec2Isabelle
  imports Complex_Main "HOL-Library.AList"
begin

section \<open>The notebook tools of the google-colab-mcp server\<close>

text \<open>
  The server's \<^verbatim>\<open>handleCallTool\<close> dispatches on the tool name. This theory embeds its
  two notebook-editing cases, \<^verbatim>\<open>add_code_cell\<close> and \<^verbatim>\<open>edit_code_cell\<close>: argument
  validation by the Zod schemas, the download, \<^verbatim>\<open>JSON.parse\<close>, the structure guard, the
  edit of the cell array, the upload, and the \<^verbatim>\<open>catch\<close> block that re-throws every
  failure as an \<^verbatim>\<open>McpError\<close>. Logging (\<^verbatim>\<open>console.error\<close>) is left out, and the Drive
  client is taken to be initialised.
\<close>

subsection \<open>Parsed JSON\<close>

text \<open>
  \<^verbatim>\<open>notebookJson\<close> has type \<^verbatim>\<open>any\<close>: it is whatever \<^verbatim>\<open>JSON.parse\<close> returns. An object is
  an association list in property order; a number is a rational, which the handlers
  only test for zero and print.
\<close>

datatype json =
    JNull
  | JBool bool
  | JNum rat
  | JStr string
  | JArr "json list"
  | JObj "(string \<times> json) list"

text \<open>JavaScript truthiness, as used by \<^verbatim>\<open>!notebookJson\<close>.\<close>

fun truthy :: "json \<Rightarrow> bool" where
  "truthy JNull = False"
| "truthy (JBool b) = b"
| "truthy (JNum n) = (n \<noteq> 0)"
| "truthy (JStr s) = (s \<noteq> [])"
| "truthy (JArr xs) = True"
| "truthy (JObj al) = True"

text \<open>
  Reading the property \<open>k\<close> of a value that is not \<^verbatim>\<open>null\<close>; \<open>None\<close> is
  \<^verbatim>\<open>undefined\<close>. Only the names \<^verbatim>\<open>cells\<close> and \<^verbatim>\<open>cell_type\<close> are read, which no
  primitive, array or prototype defines. Reading a property of \<^verbatim>\<open>null\<close> throws, and each
  caller below decides that case before it calls \<open>get_prop\<close>.
\<close>

fun get_prop :: "json \<Rightarrow> string \<Rightarrow> json option" where
  "get_prop (JObj al) k = map_of al k"
| "get_prop v k = None"

text \<open>
  Assigning the property \<open>k\<close> of an object: an existing property keeps its place, a new
  one goes last. The handlers assign only to values already known to be objects.
\<close>

fun set_prop :: "json \<Rightarrow> string \<Rightarrow> json \<Rightarrow> json" where
  "set_prop (JObj al) k v = JObj (AList.update k v al)"
| "set_prop w k v = w"

subsection \<open>The source of a cell\<close>

abbreviation nl :: char where
  "nl \<equiv> CHR 0x0A"

text \<open>\<^verbatim>\<open>code.split('\n')\<close>: the pieces between line breaks; never empty.\<close>

fun split_nl :: "string \<Rightarrow> string list" where
  "split_nl [] = [[]]"
| "split_nl (c # cs) =
     (if c = nl then [] # split_nl cs
      else (case split_nl cs of [] \<Rightarrow> [[c]] | l # ls \<Rightarrow> (c # l) # ls))"

text \<open>\<^verbatim>\<open>s.replace(/\n$/, '')\<close>: without the \<^verbatim>\<open>m\<close> flag, \<^verbatim>\<open>$\<close> is the end of the string.\<close>

definition strip_nl :: "string \<Rightarrow> string" where
  "strip_nl s = (if s \<noteq> [] \<and> last s = nl then butlast s else s)"

text \<open>
  The value of \<^verbatim>\<open>newCell.source\<close> (lines 362 to 371) and of \<^verbatim>\<open>targetCell.source\<close>
  (lines 465 to 473), which are the same statements: split and re-terminate every line,
  \<^verbatim>\<open>pop\<close> a last element that is exactly a line break, then strip the line break of the
  element that is last now, if there is one.
\<close>

definition line_fragments :: "string \<Rightarrow> string list" where
  "line_fragments code =
     (let source = map (\<lambda>line. line @ [nl]) (split_nl code);
          source = (if length source > 0 \<and> source ! (length source - 1) = [nl]
                    then butlast source else source)
      in if length source > 0
         then (let lastLineIndex = length source - 1
               in source[lastLineIndex := strip_nl (source ! lastLineIndex)])
         else source)"

text \<open>A text ends in a line break.\<close>

definition ends_with_nl :: "string \<Rightarrow> bool" where
  "ends_with_nl t \<longleftrightarrow> t \<noteq> [] \<and> last t = nl"

text \<open>
  The shape the fragments take: every line but the last terminated, the last one bare.
  It is used to state lemmas only.
\<close>

definition terminate_init :: "string list \<Rightarrow> string list" where
  "terminate_init ls = map (\<lambda>l. l @ [nl]) (butlast ls) @ [last ls]"

subsection \<open>The host: built-ins and libraries the handlers call\<close>

text \<open>
  What the code calls but does not define is a parameter: \<^verbatim>\<open>JSON.parse\<close> (\<open>None\<close> when it
  throws), \<^verbatim>\<open>JSON.stringify(_, null, 2)\<close>, the conversion of a number inside a template
  literal, the \<^verbatim>\<open>message\<close> the SDK's \<^verbatim>\<open>McpError\<close> constructor builds from a code and a
  text, the message of the Zod issue for a failed \<^verbatim>\<open>nonnegative()\<close>, and the engine's
  message for reading a property of \<^verbatim>\<open>null\<close>.
\<close>

datatype ErrorCode = InvalidParams | InternalError | InvalidRequest | MethodNotFound

record host =
  JSON_parse :: "string \<Rightarrow> json option"
  JSON_stringify :: "json \<Rightarrow> string"
  Number_toString :: "rat \<Rightarrow> string"
  McpError_message :: "ErrorCode \<Rightarrow> string \<Rightarrow> string"
  nonnegative_message :: string
  null_read_message :: "string \<Rightarrow> string"

text \<open>\<^verbatim>\<open>Array.prototype.join\<close> on strings.\<close>

fun join :: "string \<Rightarrow> string list \<Rightarrow> string" where
  "join sep [] = []"
| "join sep [x] = x"
| "join sep (x # y # ys) = x @ sep @ join sep (y # ys)"

text \<open>
  A value inside a template literal (\<^verbatim>\<open>${targetCell.cell_type}\<close>): a string is itself,
  an array is its elements joined by commas with \<^verbatim>\<open>null\<close> as the empty string, an
  object is \<^verbatim>\<open>[object Object]\<close>.
\<close>

fun js_string :: "host \<Rightarrow> json \<Rightarrow> string" where
  "js_string h JNull = ''null''"
| "js_string h (JBool b) = (if b then ''true'' else ''false'')"
| "js_string h (JNum n) = Number_toString h n"
| "js_string h (JStr s) = s"
| "js_string h (JArr xs) =
     join '','' (map (\<lambda>x. if x = JNull then [] else js_string h x) xs)"
| "js_string h (JObj al) = ''[object Object]''"

definition template :: "host \<Rightarrow> json option \<Rightarrow> string" where
  "template h v = (case v of None \<Rightarrow> ''undefined'' | Some j \<Rightarrow> js_string h j)"

subsection \<open>Thrown values and the catch block\<close>

text \<open>
  An error of the Drive client, as far as the catch block reads it: \<^verbatim>\<open>code\<close>,
  \<^verbatim>\<open>response?.status\<close>, \<^verbatim>\<open>response?.data?.error?.message\<close> and \<^verbatim>\<open>message\<close>.
\<close>

record api_error =
  err_code :: "int option"
  response_status :: "int option"
  response_message :: "string option"
  err_message :: string

datatype thrown =
    ZodError "string list"
  | McpError ErrorCode string
  | TypeError string
  | ApiError api_error
  | ThrownString string
  | ThrownOther

text \<open>
  The two catch blocks (lines 402 to 423 and 495 to 515) differ in the tool name and in
  the prefix of the final message only, which are the arguments \<open>tool\<close> and \<open>failed\<close>;
  \<open>fid\<close> is \<^verbatim>\<open>args?.notebookFileId\<close>. An \<^verbatim>\<open>McpError\<close> thrown inside the \<^verbatim>\<open>try\<close> is an
  \<^verbatim>\<open>Error\<close> with no \<^verbatim>\<open>response\<close> and with a JSON-RPC code, never 404: it leaves the
  catch block as an \<^verbatim>\<open>InternalError\<close> around its own message.
\<close>

fun catch_block :: "host \<Rightarrow> string \<Rightarrow> string \<Rightarrow> string \<Rightarrow> thrown \<Rightarrow> thrown" where
  "catch_block h tool failed fid (ZodError msgs) =
     McpError InvalidParams
       (failed @ ''Invalid arguments for '' @ tool @ '': '' @ join '', '' msgs)"
| "catch_block h tool failed fid (ApiError e) =
     (let message = (case response_message e of
                       Some m \<Rightarrow> if m \<noteq> [] then m else err_message e
                     | None \<Rightarrow> err_message e)
      in if err_code e = Some 404 \<or> response_status e = Some 404
         then McpError InvalidRequest
                (failed @ ''Notebook file not found (ID: '' @ fid @ ''). '' @ message)
         else McpError InternalError (failed @ message))"
| "catch_block h tool failed fid (McpError c m) =
     McpError InternalError (failed @ McpError_message h c m)"
| "catch_block h tool failed fid (TypeError m) = McpError InternalError (failed @ m)"
| "catch_block h tool failed fid (ThrownString s) = McpError InternalError (failed @ s)"
| "catch_block h tool failed fid ThrownOther =
     McpError InternalError (failed @ ''An unknown error occurred'')"

subsection \<open>Parsing and editing the notebook\<close>

text \<open>
  The guard \<^verbatim>\<open>!notebookJson || !Array.isArray(notebookJson.cells)\<close>: \<open>None\<close> when it
  throws, the cell array otherwise. The first disjunct keeps \<^verbatim>\<open>null\<close> away from the
  property read.
\<close>

definition cells_array :: "json \<Rightarrow> json list option" where
  "cells_array notebookJson =
     (if \<not> truthy notebookJson then None
      else (case get_prop notebookJson ''cells'' of
              Some (JArr cells) \<Rightarrow> Some cells
            | _ \<Rightarrow> None))"

text \<open>The texts of the four errors the notebook steps throw.\<close>

definition parse_failed :: string where
  "parse_failed = ''Failed to parse notebook content. Is it a valid .ipynb file?''"

definition no_cells_array :: string where
  \<open>no_cells_array = ''Invalid notebook structure: "cells" array not found.''\<close>

definition invalid_index :: "host \<Rightarrow> int \<Rightarrow> nat \<Rightarrow> string" where
  "invalid_index h cellIndex len =
     ''Invalid cell index: '' @ Number_toString h (of_int cellIndex)
     @ ''. Notebook has '' @ Number_toString h (of_nat len) @ '' cells.''"

definition not_code_cell :: "host \<Rightarrow> int \<Rightarrow> json option \<Rightarrow> string" where
  "not_code_cell h cellIndex cell_type =
     ''Cell at index '' @ Number_toString h (of_int cellIndex)
     @ '' is not a code cell (type: '' @ template h cell_type @ '').''"

definition parse_notebook :: "host \<Rightarrow> string \<Rightarrow> thrown + json \<times> json list" where
  "parse_notebook h notebookContent =
     (case JSON_parse h notebookContent of
        None \<Rightarrow> Inl (McpError InternalError parse_failed)
      | Some notebookJson \<Rightarrow>
          (case cells_array notebookJson of
             None \<Rightarrow> Inl (McpError InternalError no_cells_array)
           | Some cells \<Rightarrow> Inr (notebookJson, cells)))"

text \<open>The new cell of \<^verbatim>\<open>add_code_cell\<close>, with its keys in the order of the literal.\<close>

definition newCell :: "string \<Rightarrow> json" where
  "newCell code =
     JObj [(''cell_type'', JStr ''code''),
           (''execution_count'', JNull),
           (''metadata'', JObj []),
           (''outputs'', JArr []),
           (''source'', JArr (map JStr (line_fragments code)))]"

text \<open>
  Step 5 of \<^verbatim>\<open>add_code_cell\<close>: \<^verbatim>\<open>splice(position, 0, newCell)\<close> when the position is
  given and within \<open>0..length\<close>, \<^verbatim>\<open>push(newCell)\<close> otherwise.
\<close>

definition insert_cell :: "json list \<Rightarrow> int option \<Rightarrow> json \<Rightarrow> json list" where
  "insert_cell cells position cell =
     (case position of
        Some p \<Rightarrow>
          if p \<ge> 0 \<and> p \<le> int (length cells)
          then take (nat p) cells @ [cell] @ drop (nat p) cells
          else cells @ [cell]
      | None \<Rightarrow> cells @ [cell])"

text \<open>Steps 3 to 5 of \<^verbatim>\<open>add_code_cell\<close>: the notebook in memory after the insertion.\<close>

definition add_cell :: "host \<Rightarrow> string \<Rightarrow> string \<Rightarrow> int option \<Rightarrow> thrown + json" where
  "add_cell h notebookContent code position =
     (case parse_notebook h notebookContent of
        Inl e \<Rightarrow> Inl e
      | Inr (notebookJson, cells) \<Rightarrow>
          Inr (set_prop notebookJson ''cells''
                 (JArr (insert_cell cells position (newCell code)))))"

text \<open>
  Steps 3 to 5 of \<^verbatim>\<open>edit_code_cell\<close>: the bounds check, the read of
  \<^verbatim>\<open>targetCell.cell_type\<close> (a \<^verbatim>\<open>TypeError\<close> when the cell is \<^verbatim>\<open>null\<close>), the kind check,
  and the assignment of the new source.
\<close>

definition edit_cell :: "host \<Rightarrow> string \<Rightarrow> int \<Rightarrow> string \<Rightarrow> thrown + json" where
  "edit_cell h notebookContent cellIndex newCode =
     (case parse_notebook h notebookContent of
        Inl e \<Rightarrow> Inl e
      | Inr (notebookJson, cells) \<Rightarrow>
          if cellIndex < 0 \<or> cellIndex \<ge> int (length cells)
          then Inl (McpError InvalidParams (invalid_index h cellIndex (length cells)))
          else (let targetCell = cells ! nat cellIndex
                in if targetCell = JNull
                   then Inl (TypeError (null_read_message h ''cell_type''))
                   else if get_prop targetCell ''cell_type'' \<noteq> Some (JStr ''code'')
                   then Inl (McpError InvalidParams
                               (not_code_cell h cellIndex (get_prop targetCell ''cell_type'')))
                   else Inr (set_prop notebookJson ''cells''
                               (JArr (cells[nat cellIndex :=
                                  set_prop targetCell ''source''
                                    (JArr (map JStr (line_fragments newCode)))])))))"

subsection \<open>Arguments and their schemas\<close>

text \<open>
  The types carry what the schemas check of the shape (strings, integers, an optional
  position); what is left of \<^verbatim>\<open>parse\<close> is \<^verbatim>\<open>nonnegative()\<close>. The field
  \<^verbatim>\<open>notebookFileId\<close> of the second schema is \<open>editNotebookFileId\<close> here, as two
  records cannot share a field name.
\<close>

record AddCodeCellArgs =
  notebookFileId :: string
  code :: string
  position :: "int option"

record EditCodeCellArgs =
  editNotebookFileId :: string
  cellIndex :: int
  newCode :: string

definition AddCodeCellArgsSchema :: "host \<Rightarrow> AddCodeCellArgs \<Rightarrow> thrown + AddCodeCellArgs" where
  "AddCodeCellArgsSchema h args =
     (case position args of
        None \<Rightarrow> Inr args
      | Some p \<Rightarrow> if p < 0 then Inl (ZodError [nonnegative_message h]) else Inr args)"

definition EditCodeCellArgsSchema :: "host \<Rightarrow> EditCodeCellArgs \<Rightarrow> thrown + EditCodeCellArgs" where
  "EditCodeCellArgsSchema h args =
     (if cellIndex args < 0 then Inl (ZodError [nonnegative_message h]) else Inr args)"

subsection \<open>The two tools, with their calls to Drive\<close>

text \<open>
  A handler makes at most one \<^verbatim>\<open>drive.files.get\<close> and one \<^verbatim>\<open>drive.files.update\<close>. What
  Drive answers to each is an argument (\<open>Inl\<close> when the call throws); the calls made, in
  order, are part of the result.
\<close>

datatype drive_call =
    FilesGet string
  | FilesUpdate string string string

record drive_file =
  file_name :: string
  file_id :: string

abbreviation ipynb_mime :: string where
  "ipynb_mime \<equiv> ''application/x-ipynb+json''"

definition add_code_cell_try ::
  "host \<Rightarrow> AddCodeCellArgs \<Rightarrow> thrown + string \<Rightarrow> thrown + drive_file
     \<Rightarrow> drive_call list \<times> (thrown + string)" where
  "add_code_cell_try h args download upload =
     (case AddCodeCellArgsSchema h args of
        Inl e \<Rightarrow> ([], Inl e)
      | Inr validatedArgs \<Rightarrow>
          (let fid = notebookFileId validatedArgs in
           case download of
             Inl e \<Rightarrow> ([FilesGet fid], Inl e)
           | Inr notebookContent \<Rightarrow>
               (case add_cell h notebookContent (code validatedArgs) (position validatedArgs) of
                  Inl e \<Rightarrow> ([FilesGet fid], Inl e)
                | Inr notebookJson \<Rightarrow>
                    (let calls = [FilesGet fid,
                                  FilesUpdate fid ipynb_mime (JSON_stringify h notebookJson)]
                     in case upload of
                          Inl e \<Rightarrow> (calls, Inl e)
                        | Inr updatedFile \<Rightarrow>
                            (calls,
                             Inr (''Successfully added code cell to notebook ''
                                  @ [CHR 0x27] @ file_name updatedFile @ [CHR 0x27]
                                  @ '' (ID: '' @ file_id updatedFile @ '').''))))))"

definition add_code_cell ::
  "host \<Rightarrow> AddCodeCellArgs \<Rightarrow> thrown + string \<Rightarrow> thrown + drive_file
     \<Rightarrow> drive_call list \<times> (thrown + string)" where
  "add_code_cell h args download upload =
     (case add_code_cell_try h args download upload of
        (calls, Inl e) \<Rightarrow>
          (calls, Inl (catch_block h ''add_code_cell'' ''Failed to add code cell: ''
                         (notebookFileId args) e))
      | (calls, Inr r) \<Rightarrow> (calls, Inr r))"

definition edit_code_cell_try ::
  "host \<Rightarrow> EditCodeCellArgs \<Rightarrow> thrown + string \<Rightarrow> thrown + drive_file
     \<Rightarrow> drive_call list \<times> (thrown + string)" where
  "edit_code_cell_try h args download upload =
     (case EditCodeCellArgsSchema h args of
        Inl e \<Rightarrow> ([], Inl e)
      | Inr validatedArgs \<Rightarrow>
          (let fid = editNotebookFileId validatedArgs in
           case download of
             Inl e \<Rightarrow> ([FilesGet fid], Inl e)
           | Inr notebookContent \<Rightarrow>
               (case edit_cell h notebookContent (cellIndex validatedArgs)
                       (newCode validatedArgs) of
                  Inl e \<Rightarrow> ([FilesGet fid], Inl e)
                | Inr notebookJson \<Rightarrow>
                    (let calls = [FilesGet fid,
                                  FilesUpdate fid ipynb_mime (JSON_stringify h notebookJson)]
                     in case upload of
                          Inl e \<Rightarrow> (calls, Inl e)
                        | Inr updatedFile \<Rightarrow>
                            (calls,
                             Inr (''Successfully edited cell ''
                                  @ Number_toString h (of_int (cellIndex validatedArgs))
                                  @ '' in notebook ''
                                  @ [CHR 0x27] @ file_name updatedFile @ [CHR 0x27]
                                  @ '' (ID: '' @ file_id updatedFile @ '').''))))))"

definition edit_code_cell ::
  "host \<Rightarrow> EditCodeCellArgs \<Rightarrow> thrown + string \<Rightarrow> thrown + drive_file
     \<Rightarrow> drive_call list \<times> (thrown + string)" where
  "edit_code_cell h args download upload =
     (case edit_code_cell_try h args download upload of
        (calls, Inl e) \<Rightarrow>
          (calls, Inl (catch_block h ''edit_code_cell'' ''Failed to edit code cell: ''
                         (editNotebookFileId args) e))
      | (calls, Inr r) \<Rightarrow> (calls, Inr r))"

subsection \<open>An example host and notebook\<close>

text \<open>
  The closed instances below run the handlers on a concrete host. Its number conversion
  prints the integer part in decimal, its \<open>JSON_stringify\<close> prints compactly, and its
  \<open>JSON_parse\<close> knows two contents: the one that stands for the example notebook, and
  the empty array.
\<close>

function decimal :: "nat \<Rightarrow> string" where
  "decimal n =
     (if n < 10 then [''0123456789'' ! n]
      else decimal (n div 10) @ [''0123456789'' ! (n mod 10)])"
  by pat_completeness auto
termination
  by (relation "measure id") auto

definition decimal_rat :: "rat \<Rightarrow> string" where
  "decimal_rat r = (if r < 0 then ''-'' else []) @ decimal (nat \<lfloor>\<bar>r\<bar>\<rfloor>)"

fun render :: "json \<Rightarrow> string" where
  "render JNull = ''null''"
| "render (JBool b) = (if b then ''true'' else ''false'')"
| "render (JNum n) = decimal_rat n"
| "render (JStr s) = [CHR 0x22] @ s @ [CHR 0x22]"
| "render (JArr xs) = ''['' @ join '','' (map render xs) @ '']''"
| "render (JObj al) =
     ''{'' @ join '','' (map (\<lambda>(k, v). [CHR 0x22] @ k @ [CHR 0x22] @ '':'' @ render v) al) @ ''}''"

fun error_number :: "ErrorCode \<Rightarrow> string" where
  "error_number InvalidParams = ''-32602''"
| "error_number InternalError = ''-32603''"
| "error_number InvalidRequest = ''-32600''"
| "error_number MethodNotFound = ''-32601''"

definition example_cells :: "json list" where
  "example_cells =
     [JObj [(''cell_type'', JStr ''code''),
            (''execution_count'', JNum 1),
            (''metadata'', JObj []),
            (''outputs'', JArr [JStr ''1'']),
            (''source'', JArr [JStr ''a=1''])],
      JObj [(''cell_type'', JStr ''markdown''),
            (''metadata'', JObj []),
            (''source'', JArr [JStr ''# title''])]]"

definition example_notebook :: json where
  "example_notebook =
     JObj [(''cells'', JArr example_cells), (''metadata'', JObj []), (''nbformat'', JNum 4)]"

definition example_content :: string where
  "example_content = ''notebook''"

definition example_host :: host where
  "example_host =
     \<lparr>JSON_parse = (\<lambda>s. if s = example_content then Some example_notebook
                        else if s = ''[]'' then Some (JArr []) else None),
      JSON_stringify = render,
      Number_toString = decimal_rat,
      McpError_message = (\<lambda>c m. ''MCP error '' @ error_number c @ '': '' @ m),
      nonnegative_message = ''Number must be greater than or equal to 0'',
      null_read_message = (\<lambda>k. ''Cannot read properties of null (reading '' @ k @ '')'')\<rparr>"

definition example_file :: drive_file where
  "example_file = \<lparr>file_name = ''demo.ipynb'', file_id = ''nb1''\<rparr>"

section \<open>Properties of the source encoding\<close>

subsection \<open>Splitting and joining\<close>

lemma split_nl_ne: "split_nl s \<noteq> []"
  by (induction s) (auto split: list.splits)

lemma split_nl_snoc: "split_nl (s @ [nl]) = split_nl s @ [[]]"
  by (induction s) (auto split: list.splits simp: split_nl_ne)

lemma split_nl_snoc_other:
  "c \<noteq> nl \<Longrightarrow> split_nl (s @ [c]) = butlast (split_nl s) @ [last (split_nl s) @ [c]]"
  by (induction s) (auto split: list.splits simp: split_nl_ne)

lemma concat_split_nl: "concat (map (\<lambda>l. l @ [nl]) (split_nl s)) = s @ [nl]"
  by (induction s) (auto split: list.splits simp: split_nl_ne)

lemma last_split_nl: "last (split_nl s) = [] \<longleftrightarrow> s = [] \<or> last s = nl"
proof (cases s rule: rev_cases)
  case Nil
  then show ?thesis by simp
next
  case (snoc ys y)
  show ?thesis
  proof (cases "y = nl")
    case True
    with snoc show ?thesis by (simp add: split_nl_snoc)
  next
    case False
    with snoc show ?thesis by (simp add: split_nl_snoc_other)
  qed
qed

lemma strip_nl_snoc: "strip_nl (l @ [nl]) = l"
  by (simp add: strip_nl_def)

lemma update_last: "xs \<noteq> [] \<Longrightarrow> xs[length xs - 1 := v] = butlast xs @ [v]"
  by (induction xs rule: rev_induct) (auto simp: list_update_append)

lemma finish_lines:
  assumes "ls \<noteq> []" and src: "src = map (\<lambda>line. line @ [nl]) ls"
  shows "src[length src - 1 := strip_nl (src ! (length src - 1))] = terminate_init ls"
proof -
  have ne: "src \<noteq> []" using assms by simp
  have "src ! (length src - 1) = last src"
    using ne by (simp add: last_conv_nth)
  also have "\<dots> = last ls @ [nl]" using assms by (simp add: last_map)
  finally have "strip_nl (src ! (length src - 1)) = last ls"
    by (simp add: strip_nl_snoc)
  then show ?thesis
    using update_last [OF ne] by (simp add: src terminate_init_def map_butlast)
qed

lemma line_fragments_alt:
  "line_fragments t =
     (let ls = split_nl t; ls' = (if last ls = [] then butlast ls else ls)
      in if ls' = [] then [] else terminate_init ls')"
proof -
  define f :: "string \<Rightarrow> string" where "f = (\<lambda>line. line @ [nl])"
  define pop :: "string list \<Rightarrow> string list" where
    "pop = (\<lambda>source. if length source > 0 \<and> source ! (length source - 1) = [nl]
                      then butlast source else source)"
  define finish :: "string list \<Rightarrow> string list" where
    "finish = (\<lambda>source. if length source > 0
                then source[length source - 1 := strip_nl (source ! (length source - 1))]
                else source)"
  define ls where "ls = split_nl t"
  define ls' where "ls' = (if last ls = [] then butlast ls else ls)"
  have unfold: "line_fragments t = finish (pop (map f ls))"
    unfolding line_fragments_def Let_def pop_def finish_def f_def ls_def ..
  have ne: "ls \<noteq> []" unfolding ls_def by (rule split_nl_ne)
  have "map f ls ! (length (map f ls) - 1) = last (map f ls)"
    using ne by (simp add: last_conv_nth)
  then have lst: "map f ls ! (length (map f ls) - 1) = last ls @ [nl]"
    using ne by (simp add: last_map f_def)
  have pop: "pop (map f ls) = map f ls'"
    unfolding pop_def ls'_def using ne lst by (simp add: map_butlast)
  have fin: "finish (map f ls') = (if ls' = [] then [] else terminate_init ls')"
  proof (cases "ls' = []")
    case True
    then show ?thesis by (simp add: finish_def)
  next
    case False
    have "(map f ls')[length (map f ls') - 1 := strip_nl (map f ls' ! (length (map f ls') - 1))]
          = terminate_init ls'"
      by (rule finish_lines [OF False]) (simp add: f_def)
    with False show ?thesis by (simp add: finish_def)
  qed
  show ?thesis
    unfolding unfold pop fin by (simp add: Let_def ls'_def ls_def)
qed

lemma concat_terminate_init:
  "ls \<noteq> [] \<Longrightarrow> concat (terminate_init ls) @ [nl] = concat (map (\<lambda>l. l @ [nl]) ls)"
  by (induction ls rule: rev_induct) (simp_all add: terminate_init_def)

lemma line_fragments_open:
  assumes "t \<noteq> []" "last t \<noteq> nl"
  shows "line_fragments t = terminate_init (split_nl t)"
  using assms split_nl_ne [of t] last_split_nl [of t]
  by (simp add: line_fragments_alt)

lemma line_fragments_snoc: "line_fragments (s @ [nl]) = terminate_init (split_nl s)"
  using split_nl_ne [of s] by (simp add: line_fragments_alt split_nl_snoc)

lemma line_fragments_Nil: "line_fragments [] = []"
  by (simp add: line_fragments_alt)

lemma concat_line_fragments_snoc: "concat (line_fragments (s @ [nl])) = s"
  using concat_terminate_init [OF split_nl_ne, of s]
  by (simp add: line_fragments_snoc concat_split_nl)

lemma concat_line_fragments_open:
  assumes "\<not> ends_with_nl t"
  shows "concat (line_fragments t) = t"
proof (cases "t = []")
  case True
  then show ?thesis by (simp add: line_fragments_Nil)
next
  case False
  with assms have "last t \<noteq> nl" by (simp add: ends_with_nl_def)
  with False have "line_fragments t = terminate_init (split_nl t)"
    by (rule line_fragments_open)
  with concat_terminate_init [OF split_nl_ne, of t] show ?thesis
    by (simp add: concat_split_nl)
qed

lemma line_fragments_same:
  assumes "t \<noteq> []" "\<not> ends_with_nl t"
  shows "line_fragments (t @ [nl]) = line_fragments t"
  using assms by (simp add: line_fragments_snoc line_fragments_open ends_with_nl_def)

lemma line_fragments_two:
  "line_fragments (s @ [nl, nl]) = map (\<lambda>l. l @ [nl]) (split_nl s) @ [[]]"
proof -
  have "line_fragments ((s @ [nl]) @ [nl]) = terminate_init (split_nl s @ [[]])"
    by (simp only: line_fragments_snoc split_nl_snoc)
  then show ?thesis by (simp add: terminate_init_def)
qed

subsection \<open>Claims about the encoding\<close>

text \<open>
  C1: for every code text \<open>t\<close> that does not end in a line break, joining the fragments
  of \<open>line_fragments t\<close> gives \<open>t\<close> back.
\<close>

theorem join_line_fragments:
  "\<not> ends_with_nl t \<Longrightarrow> concat (line_fragments t) = t"
  by (rule concat_line_fragments_open)

theorem join_line_fragments_witness:
  "\<not> ends_with_nl ''a=2\<newline>b=3''
   \<and> concat (line_fragments ''a=2\<newline>b=3'') = ''a=2\<newline>b=3''"
  using join_line_fragments [of "''a=2\<newline>b=3''"]
  by (simp add: ends_with_nl_def)

text \<open>
  C7, as stated, fails at the empty text: the empty text has no fragment at all, and a
  text that is one line break has one fragment, the empty string.
\<close>

theorem trailing_break_counterexample:
  "\<not> ends_with_nl [] \<and> line_fragments ([] @ [nl]) \<noteq> line_fragments []"
  by (simp add: ends_with_nl_def line_fragments_def strip_nl_def)

text \<open>
  C7, amended: for every code text \<open>t\<close> that is not empty and does not end in a line
  break, \<open>t\<close> followed by one line break has the fragments of \<open>t\<close>.
\<close>

theorem trailing_break_dropped:
  "t \<noteq> [] \<Longrightarrow> \<not> ends_with_nl t \<Longrightarrow> line_fragments (t @ [nl]) = line_fragments t"
  by (rule line_fragments_same)

theorem trailing_break_dropped_witness:
  "''print(1)'' \<noteq> [] \<and> \<not> ends_with_nl ''print(1)''
   \<and> line_fragments (''print(1)'' @ [nl]) = line_fragments ''print(1)''"
  using trailing_break_dropped [of "''print(1)''"]
  by (simp add: ends_with_nl_def)

text \<open>
  C8, as stated, fails: the fragments of the empty text are not the one-element sequence
  that holds the empty string.
\<close>

theorem empty_text_counterexample: "line_fragments [] \<noteq> [[]]"
  by (simp add: line_fragments_def)

text \<open>
  C8, amended: the empty code text has the empty sequence of fragments. The only
  fragment the split gives is popped, and nothing is left to strip.
\<close>

theorem empty_text_no_fragment: "line_fragments [] = [] \<and> length (line_fragments []) = 0"
  by (simp add: line_fragments_Nil)

text \<open>
  C10, as stated, fails: two texts that differ by one trailing line break only need not
  have the same fragments, neither when the shorter one ends in a line break nor when
  it is empty.
\<close>

theorem one_break_apart_counterexample:
  "line_fragments ((''a'' @ [nl]) @ [nl]) \<noteq> line_fragments (''a'' @ [nl])
   \<and> line_fragments ([] @ [nl]) \<noteq> line_fragments []"
  by (simp add: line_fragments_def strip_nl_def)

text \<open>
  C10, amended: for every code text \<open>t\<close> that ends in a line break, joining the fragments
  of \<open>t\<close> gives \<open>t\<close> without its last line break, so one trailing blank fragment is
  dropped and no more. The encoding is not injective: a text \<open>s\<close> that is not empty and
  does not end in a line break has the fragments of \<open>s\<close> followed by one line break. A
  text that ends in two line breaks keeps an empty last fragment.
\<close>

theorem one_trailing_break_removed:
  "(ends_with_nl t \<longrightarrow> concat (line_fragments t) = butlast t)
   \<and> (s \<noteq> [] \<and> \<not> ends_with_nl s \<longrightarrow> line_fragments (s @ [nl]) = line_fragments s)
   \<and> \<not> inj line_fragments
   \<and> line_fragments (u @ [nl, nl]) \<noteq> [] \<and> last (line_fragments (u @ [nl, nl])) = []"
proof -
  have one: "ends_with_nl t \<longrightarrow> concat (line_fragments t) = butlast t"
  proof
    assume "ends_with_nl t"
    then have "t = butlast t @ [nl]"
      by (simp add: ends_with_nl_def) (metis append_butlast_last_id)
    then have "concat (line_fragments t) = concat (line_fragments (butlast t @ [nl]))"
      by simp
    then show "concat (line_fragments t) = butlast t"
      by (simp only: concat_line_fragments_snoc)
  qed
  have same: "s \<noteq> [] \<and> \<not> ends_with_nl s \<longrightarrow> line_fragments (s @ [nl]) = line_fragments s"
    by (simp add: line_fragments_same)
  have "line_fragments (''a'' @ [nl]) = line_fragments ''a''"
    by (rule line_fragments_same) (simp_all add: ends_with_nl_def)
  moreover have "''a'' @ [nl] \<noteq> ''a''" by simp
  ultimately have noninj: "\<not> inj line_fragments"
    by (metis injD)
  have two: "line_fragments (u @ [nl, nl]) \<noteq> [] \<and> last (line_fragments (u @ [nl, nl])) = []"
    by (simp add: line_fragments_two)
  from one same noninj two show ?thesis by blast
qed

theorem one_trailing_break_removed_witness:
  "ends_with_nl (''a'' @ [nl, nl])
   \<and> concat (line_fragments (''a'' @ [nl, nl])) = butlast (''a'' @ [nl, nl])
   \<and> ''a'' \<noteq> [] \<and> \<not> ends_with_nl ''a''
   \<and> line_fragments (''a'' @ [nl]) = line_fragments ''a''
   \<and> last (line_fragments (''a'' @ [nl, nl])) = []"
  using one_trailing_break_removed [of "''a'' @ [nl, nl]" "''a''" "''a''"]
  by (simp add: ends_with_nl_def)

section \<open>Properties of the two tools\<close>

subsection \<open>Reading and assigning properties, inserting a cell\<close>

lemma cells_array_SomeD:
  "cells_array doc = Some cells \<Longrightarrow> \<exists>al. doc = JObj al \<and> map_of al ''cells'' = Some (JArr cells)"
  by (cases doc) (auto simp: cells_array_def split: option.splits json.splits if_splits)

lemma cells_array_None_iff:
  "cells_array doc = None \<longleftrightarrow> (\<forall>al cells. doc = JObj al \<longrightarrow> map_of al ''cells'' \<noteq> Some (JArr cells))"
  by (cases doc) (auto simp: cells_array_def split: option.splits json.splits)

lemma cells_array_set_prop:
  assumes "cells_array doc = Some cells"
  shows "cells_array (set_prop doc ''cells'' (JArr cells')) = Some cells'"
proof -
  from assms obtain al where "doc = JObj al"
    by (auto dest: cells_array_SomeD)
  then show ?thesis by (simp add: cells_array_def update_conv')
qed

lemma get_prop_set_prop_other:
  "k \<noteq> k' \<Longrightarrow> get_prop (set_prop j k' v) k = get_prop j k"
  by (cases j) (simp_all add: update_conv')

lemma get_prop_set_prop_same:
  "get_prop j k' \<noteq> None \<Longrightarrow> get_prop (set_prop j k' v) k' = Some v"
  by (cases j) (simp_all add: update_conv')

lemma parse_notebook_ok:
  "JSON_parse h content = Some doc \<Longrightarrow> cells_array doc = Some cells
   \<Longrightarrow> parse_notebook h content = Inr (doc, cells)"
  by (simp add: parse_notebook_def)

lemma parse_notebook_bad:
  "JSON_parse h content = None \<or> (\<exists>doc. JSON_parse h content = Some doc \<and> cells_array doc = None)
   \<Longrightarrow> parse_notebook h content =
       Inl (McpError InternalError (if JSON_parse h content = None then parse_failed else no_cells_array))"
  by (auto simp: parse_notebook_def)


lemma insert_cell_append:
  "pos = None \<or> pos = Some (int (length cells)) \<or> (\<exists>p. pos = Some p \<and> int (length cells) < p)
   \<Longrightarrow> insert_cell cells pos c = cells @ [c]"
  by (auto simp: insert_cell_def)

subsection \<open>What the handlers do around the notebook steps\<close>

lemma add_code_cell_rejected:
  assumes "position a = Some p" "p < 0"
  shows "add_code_cell_try h a download upload = ([], Inl (ZodError [nonnegative_message h]))"
  using assms by (simp add: add_code_cell_try_def AddCodeCellArgsSchema_def)

lemma add_code_cell_thrown:
  assumes "\<forall>p. position a = Some p \<longrightarrow> 0 \<le> p"
    and "add_cell h content (code a) (position a) = Inl e"
  shows "add_code_cell_try h a (Inr content) upload = ([FilesGet (notebookFileId a)], Inl e)"
    and "add_code_cell h a (Inr content) upload =
           ([FilesGet (notebookFileId a)],
            Inl (catch_block h ''add_code_cell'' ''Failed to add code cell: '' (notebookFileId a) e))"
proof -
  have ok: "AddCodeCellArgsSchema h a = Inr a"
    using assms(1) by (auto simp: AddCodeCellArgsSchema_def split: option.splits)
  show tried: "add_code_cell_try h a (Inr content) upload = ([FilesGet (notebookFileId a)], Inl e)"
    using assms(2) by (simp add: add_code_cell_try_def ok Let_def)
  show "add_code_cell h a (Inr content) upload =
          ([FilesGet (notebookFileId a)],
           Inl (catch_block h ''add_code_cell'' ''Failed to add code cell: '' (notebookFileId a) e))"
    by (simp add: add_code_cell_def tried)
qed

lemma add_code_cell_uploads:
  assumes "\<forall>p. position a = Some p \<longrightarrow> 0 \<le> p"
    and "add_cell h content (code a) (position a) = Inr doc'"
  shows "add_code_cell h a (Inr content) upload =
           ([FilesGet (notebookFileId a),
             FilesUpdate (notebookFileId a) ipynb_mime (JSON_stringify h doc')],
            (case upload of
               Inl e \<Rightarrow>
                 Inl (catch_block h ''add_code_cell'' ''Failed to add code cell: ''
                        (notebookFileId a) e)
             | Inr updatedFile \<Rightarrow>
                 Inr (''Successfully added code cell to notebook ''
                      @ [CHR 0x27] @ file_name updatedFile @ [CHR 0x27]
                      @ '' (ID: '' @ file_id updatedFile @ '').'')))"
proof -
  have ok: "AddCodeCellArgsSchema h a = Inr a"
    using assms(1) by (auto simp: AddCodeCellArgsSchema_def split: option.splits)
  show ?thesis
    using assms(2)
    by (cases upload) (simp_all add: add_code_cell_def add_code_cell_try_def ok Let_def)
qed

lemma edit_code_cell_rejected:
  assumes "cellIndex a < 0"
  shows "edit_code_cell_try h a download upload = ([], Inl (ZodError [nonnegative_message h]))"
  using assms by (simp add: edit_code_cell_try_def EditCodeCellArgsSchema_def)

lemma edit_code_cell_thrown:
  assumes "0 \<le> cellIndex a"
    and "edit_cell h content (cellIndex a) (newCode a) = Inl e"
  shows "edit_code_cell_try h a (Inr content) upload = ([FilesGet (editNotebookFileId a)], Inl e)"
    and "edit_code_cell h a (Inr content) upload =
           ([FilesGet (editNotebookFileId a)],
            Inl (catch_block h ''edit_code_cell'' ''Failed to edit code cell: ''
                   (editNotebookFileId a) e))"
proof -
  have ok: "EditCodeCellArgsSchema h a = Inr a"
    using assms(1) by (simp add: EditCodeCellArgsSchema_def)
  show tried: "edit_code_cell_try h a (Inr content) upload =
               ([FilesGet (editNotebookFileId a)], Inl e)"
    using assms(2) by (simp add: edit_code_cell_try_def ok Let_def)
  show "edit_code_cell h a (Inr content) upload =
          ([FilesGet (editNotebookFileId a)],
           Inl (catch_block h ''edit_code_cell'' ''Failed to edit code cell: ''
                  (editNotebookFileId a) e))"
    by (simp add: edit_code_cell_def tried)
qed

lemma edit_code_cell_uploads:
  assumes "0 \<le> cellIndex a"
    and "edit_cell h content (cellIndex a) (newCode a) = Inr doc'"
  shows "fst (edit_code_cell h a (Inr content) upload) =
           [FilesGet (editNotebookFileId a),
            FilesUpdate (editNotebookFileId a) ipynb_mime (JSON_stringify h doc')]"
proof -
  have ok: "EditCodeCellArgsSchema h a = Inr a"
    using assms(1) by (simp add: EditCodeCellArgsSchema_def)
  show ?thesis
    using assms(2)
    by (cases upload) (simp_all add: edit_code_cell_def edit_code_cell_try_def ok Let_def)
qed

lemma edit_cell_out_of_range:
  assumes "JSON_parse h content = Some doc" "cells_array doc = Some cells"
    and "i < 0 \<or> int (length cells) \<le> i"
  shows "edit_cell h content i t = Inl (McpError InvalidParams (invalid_index h i (length cells)))"
  using assms by (auto simp: edit_cell_def parse_notebook_ok)

lemma edit_cell_wrong_kind:
  assumes "JSON_parse h content = Some doc" "cells_array doc = Some cells"
    and "0 \<le> i" "i < int (length cells)"
    and "get_prop (cells ! nat i) ''cell_type'' = Some v" "v \<noteq> JStr ''code''"
  shows "edit_cell h content i t = Inl (McpError InvalidParams (not_code_cell h i (Some v)))"
proof -
  have "cells ! nat i \<noteq> JNull" using assms(5) by auto
  with assms show ?thesis
    by (simp add: edit_cell_def parse_notebook_ok Let_def)
qed

lemma edit_cell_code:
  assumes "JSON_parse h content = Some doc" "cells_array doc = Some cells"
    and "0 \<le> i" "i < int (length cells)"
    and "get_prop (cells ! nat i) ''cell_type'' = Some (JStr ''code'')"
  shows "edit_cell h content i t =
           Inr (set_prop doc ''cells''
                  (JArr (cells[nat i := set_prop (cells ! nat i) ''source''
                                          (JArr (map JStr (line_fragments t)))])))"
proof -
  have "cells ! nat i \<noteq> JNull" using assms(5) by auto
  with assms show ?thesis
    by (simp add: edit_cell_def parse_notebook_ok Let_def)
qed

lemma set_source_of_code_cell:
  assumes "get_prop c ''cell_type'' = Some v"
  shows "get_prop (set_prop c ''source'' s) ''source'' = Some s"
proof -
  from assms obtain al where "c = JObj al" by (cases c) auto
  then show ?thesis by (simp add: update_conv')
qed

subsection \<open>Claims about inserting a code cell\<close>



text \<open>
  C6, as stated, fails at the position \<open>-1\<close>, which is outside \<open>0..n\<close>: the schema's
  \<^verbatim>\<open>nonnegative()\<close> rejects it before the notebook is downloaded, so the tool raises the
  error for invalid arguments, makes no call to Drive and appends nothing, unlike the
  call with position \<open>n\<close>.
\<close>

theorem negative_position_counterexample:
  "add_code_cell example_host \<lparr>notebookFileId = ''nb1'', code = ''x'', position = Some (- 1)\<rparr>
     (Inr example_content) (Inr example_file)
   = ([], Inl (McpError InvalidParams
        ''Failed to add code cell: Invalid arguments for add_code_cell: Number must be greater than or equal to 0''))
   \<and> add_code_cell example_host \<lparr>notebookFileId = ''nb1'', code = ''x'', position = Some (- 1)\<rparr>
        (Inr example_content) (Inr example_file)
      \<noteq> add_code_cell example_host
          \<lparr>notebookFileId = ''nb1'', code = ''x'', position = Some (int (length example_cells))\<rparr>
          (Inr example_content) (Inr example_file)"
  by (simp add: add_code_cell_def add_code_cell_try_def AddCodeCellArgsSchema_def
      add_cell_def parse_notebook_def cells_array_def example_host_def
      example_notebook_def example_cells_def Let_def)

text \<open>
  C6, amended: for a notebook that parses to \<open>doc\<close> with the \<open>n\<close> cells \<open>cells\<close>,
  \<^verbatim>\<open>add_code_cell\<close> with no position, and with a position greater than \<open>n\<close>, does
  exactly what it does with the position \<open>n\<close>: the new cell is appended, the notebook
  with \<open>cells @ [newCell t]\<close> is uploaded, and no error comes from the position (the
  result is the success text whenever the upload succeeds). With a negative position
  the arguments are rejected by their schema: the error is the one for invalid
  arguments, Drive is not called at all, and nothing is appended or written.
\<close>

theorem insert_position_out_of_range:
  assumes parse: "JSON_parse h content = Some doc"
    and arr: "cells_array doc = Some cells"
  shows "add_code_cell h \<lparr>notebookFileId = fid, code = t, position = None\<rparr> (Inr content) upload
           = add_code_cell h \<lparr>notebookFileId = fid, code = t, position = Some (int (length cells))\<rparr>
               (Inr content) upload
       \<and> (int (length cells) < p \<longrightarrow>
            add_code_cell h \<lparr>notebookFileId = fid, code = t, position = Some p\<rparr>
              (Inr content) upload
            = add_code_cell h
                \<lparr>notebookFileId = fid, code = t, position = Some (int (length cells))\<rparr>
                (Inr content) upload
          \<and> add_cell h content t (Some p)
            = Inr (set_prop doc ''cells'' (JArr (cells @ [newCell t])))
          \<and> fst (add_code_cell h \<lparr>notebookFileId = fid, code = t, position = Some p\<rparr>
                 (Inr content) upload)
            = [FilesGet fid,
               FilesUpdate fid ipynb_mime
                 (JSON_stringify h (set_prop doc ''cells'' (JArr (cells @ [newCell t]))))]
          \<and> (\<forall>f. upload = Inr f \<longrightarrow>
                (\<exists>text. snd (add_code_cell h
                               \<lparr>notebookFileId = fid, code = t, position = Some p\<rparr>
                               (Inr content) upload) = Inr text)))
       \<and> (p < 0 \<longrightarrow>
            add_code_cell_try h \<lparr>notebookFileId = fid, code = t, position = Some p\<rparr>
              download upload
            = ([], Inl (ZodError [nonnegative_message h]))
          \<and> add_code_cell h \<lparr>notebookFileId = fid, code = t, position = Some p\<rparr>
              download upload
            = ([], Inl (McpError InvalidParams
                     (''Failed to add code cell: Invalid arguments for add_code_cell: ''
                      @ nonnegative_message h))))"
proof -
  let ?doc' = "set_prop doc ''cells'' (JArr (cells @ [newCell t]))"
  have add: "add_cell h content t pos = Inr ?doc'"
    if "pos = None \<or> pos = Some (int (length cells))
        \<or> (\<exists>q. pos = Some q \<and> int (length cells) < q)" for pos
    by (simp add: add_cell_def parse_notebook_ok [OF parse arr] insert_cell_append [OF that])
  have run: "add_code_cell h \<lparr>notebookFileId = fid, code = t, position = pos\<rparr> (Inr content) upload =
      ([FilesGet fid, FilesUpdate fid ipynb_mime (JSON_stringify h ?doc')],
       (case upload of
          Inl e \<Rightarrow> Inl (catch_block h ''add_code_cell'' ''Failed to add code cell: '' fid e)
        | Inr updatedFile \<Rightarrow>
            Inr (''Successfully added code cell to notebook ''
                 @ [CHR 0x27] @ file_name updatedFile @ [CHR 0x27]
                 @ '' (ID: '' @ file_id updatedFile @ '').'')))"
    if "pos = None \<or> pos = Some (int (length cells))
        \<or> (\<exists>q. pos = Some q \<and> int (length cells) < q)" for pos
  proof -
    let ?a = "\<lparr>notebookFileId = fid, code = t, position = pos\<rparr>"
    have "\<forall>q. position ?a = Some q \<longrightarrow> 0 \<le> q"
      using that by auto
    moreover have "add_cell h content (code ?a) (position ?a) = Inr ?doc'"
      using add [OF that] by simp
    ultimately show ?thesis
      using add_code_cell_uploads [of ?a h content ?doc' upload]
      by (cases upload) simp_all
  qed
  have none: "add_code_cell h \<lparr>notebookFileId = fid, code = t, position = None\<rparr> (Inr content) upload
           = add_code_cell h \<lparr>notebookFileId = fid, code = t, position = Some (int (length cells))\<rparr>
               (Inr content) upload"
    by (simp add: run)
  have beyond: "add_code_cell h \<lparr>notebookFileId = fid, code = t, position = Some p\<rparr>
              (Inr content) upload
            = add_code_cell h
                \<lparr>notebookFileId = fid, code = t, position = Some (int (length cells))\<rparr>
                (Inr content) upload
          \<and> add_cell h content t (Some p) = Inr ?doc'
          \<and> fst (add_code_cell h \<lparr>notebookFileId = fid, code = t, position = Some p\<rparr>
                 (Inr content) upload)
            = [FilesGet fid, FilesUpdate fid ipynb_mime (JSON_stringify h ?doc')]
          \<and> (\<forall>f. upload = Inr f \<longrightarrow>
                (\<exists>text. snd (add_code_cell h
                               \<lparr>notebookFileId = fid, code = t, position = Some p\<rparr>
                               (Inr content) upload) = Inr text))"
    if big: "int (length cells) < p"
  proof -
    have "\<exists>q. Some p = Some q \<and> int (length cells) < q"
      using big by simp
    then have sel: "Some p = None \<or> Some p = Some (int (length cells))
        \<or> (\<exists>q. Some p = Some q \<and> int (length cells) < q)"
      by blast
    note r = run [OF sel]
    have same: "add_code_cell h \<lparr>notebookFileId = fid, code = t, position = Some p\<rparr>
              (Inr content) upload
            = add_code_cell h
                \<lparr>notebookFileId = fid, code = t, position = Some (int (length cells))\<rparr>
                (Inr content) upload"
      unfolding r by (simp add: run)
    have step: "add_cell h content t (Some p) = Inr ?doc'"
      by (rule add [OF sel])
    have calls: "fst (add_code_cell h \<lparr>notebookFileId = fid, code = t, position = Some p\<rparr>
                 (Inr content) upload)
            = [FilesGet fid, FilesUpdate fid ipynb_mime (JSON_stringify h ?doc')]"
      unfolding r by simp
    have good: "\<forall>f. upload = Inr f \<longrightarrow>
                (\<exists>text. snd (add_code_cell h
                               \<lparr>notebookFileId = fid, code = t, position = Some p\<rparr>
                               (Inr content) upload) = Inr text)"
      unfolding r by simp
    from same step calls good show ?thesis by blast
  qed
  have below: "add_code_cell_try h \<lparr>notebookFileId = fid, code = t, position = Some p\<rparr>
              download upload
            = ([], Inl (ZodError [nonnegative_message h]))
          \<and> add_code_cell h \<lparr>notebookFileId = fid, code = t, position = Some p\<rparr>
              download upload
            = ([], Inl (McpError InvalidParams
                     (''Failed to add code cell: Invalid arguments for add_code_cell: ''
                      @ nonnegative_message h)))"
    if neg: "p < 0"
  proof -
    have tried: "add_code_cell_try h \<lparr>notebookFileId = fid, code = t, position = Some p\<rparr>
              download upload
            = ([], Inl (ZodError [nonnegative_message h]))"
      by (rule add_code_cell_rejected [of _ p]) (use neg in simp_all)
    then show ?thesis by (simp add: add_code_cell_def)
  qed
  from none beyond below show ?thesis by blast
qed

theorem insert_position_out_of_range_witness:
  "JSON_parse example_host example_content = Some example_notebook
   \<and> cells_array example_notebook = Some example_cells
   \<and> add_code_cell example_host \<lparr>notebookFileId = ''nb1'', code = ''x'', position = None\<rparr>
        (Inr example_content) (Inr example_file)
      = add_code_cell example_host
          \<lparr>notebookFileId = ''nb1'', code = ''x'', position = Some (int (length example_cells))\<rparr>
          (Inr example_content) (Inr example_file)
   \<and> int (length example_cells) < 7
   \<and> add_code_cell example_host \<lparr>notebookFileId = ''nb1'', code = ''x'', position = Some 7\<rparr>
        (Inr example_content) (Inr example_file)
      = add_code_cell example_host
          \<lparr>notebookFileId = ''nb1'', code = ''x'', position = Some (int (length example_cells))\<rparr>
          (Inr example_content) (Inr example_file)
   \<and> add_cell example_host example_content ''x'' (Some 7)
      = Inr (set_prop example_notebook ''cells'' (JArr (example_cells @ [newCell ''x''])))
   \<and> (\<exists>text. snd (add_code_cell example_host
                     \<lparr>notebookFileId = ''nb1'', code = ''x'', position = Some 7\<rparr>
                     (Inr example_content) (Inr example_file)) = Inr text)
   \<and> (- 2 :: int) < 0
   \<and> add_code_cell example_host \<lparr>notebookFileId = ''nb1'', code = ''x'', position = Some (- 2)\<rparr>
        (Inr example_content) (Inr example_file)
      = ([], Inl (McpError InvalidParams
               (''Failed to add code cell: Invalid arguments for add_code_cell: ''
                @ nonnegative_message example_host)))"
proof -
  have p: "JSON_parse example_host example_content = Some example_notebook"
    by (simp add: example_host_def)
  have c: "cells_array example_notebook = Some example_cells"
    by (simp add: cells_array_def example_notebook_def)
  have k: "int (length example_cells) < 7"
    by (simp add: example_cells_def)
  have neg: "(- 2 :: int) < 0" by simp
  note high = insert_position_out_of_range
                [OF p c, of "''nb1''" "''x''" "Inr example_file" 7 "Inr example_content"]
  note low = insert_position_out_of_range
               [OF p c, of "''nb1''" "''x''" "Inr example_file" "- 2" "Inr example_content"]
  from high k have h1:
    "add_code_cell example_host \<lparr>notebookFileId = ''nb1'', code = ''x'', position = None\<rparr>
        (Inr example_content) (Inr example_file)
      = add_code_cell example_host
          \<lparr>notebookFileId = ''nb1'', code = ''x'', position = Some (int (length example_cells))\<rparr>
          (Inr example_content) (Inr example_file)"
    and h2: "add_code_cell example_host \<lparr>notebookFileId = ''nb1'', code = ''x'', position = Some 7\<rparr>
        (Inr example_content) (Inr example_file)
      = add_code_cell example_host
          \<lparr>notebookFileId = ''nb1'', code = ''x'', position = Some (int (length example_cells))\<rparr>
          (Inr example_content) (Inr example_file)"
    and h3: "add_cell example_host example_content ''x'' (Some 7)
      = Inr (set_prop example_notebook ''cells'' (JArr (example_cells @ [newCell ''x''])))"
    and h4: "\<exists>text. snd (add_code_cell example_host
                     \<lparr>notebookFileId = ''nb1'', code = ''x'', position = Some 7\<rparr>
                     (Inr example_content) (Inr example_file)) = Inr text"
    by blast+
  from low neg have l1:
    "add_code_cell example_host \<lparr>notebookFileId = ''nb1'', code = ''x'', position = Some (- 2)\<rparr>
        (Inr example_content) (Inr example_file)
      = ([], Inl (McpError InvalidParams
               (''Failed to add code cell: Invalid arguments for add_code_cell: ''
                @ nonnegative_message example_host)))"
    by blast
  from p c h1 k h2 h3 h4 neg l1 show ?thesis by blast
qed

subsection \<open>Claims about replacing the source of a code cell\<close>

text \<open>
  C3: for a notebook that parses to \<open>doc\<close> with the cell array \<open>cells\<close>, an index \<open>i\<close>
  within it whose cell has the kind \<^verbatim>\<open>code\<close>, and every code text \<open>t\<close>,
  \<^verbatim>\<open>edit_code_cell\<close> uploads a notebook with as many cells, in which every cell but the
  one at \<open>i\<close> is the cell it was, the cell at \<open>i\<close> has the fragments of \<open>t\<close> as its
  source and every other property as it was (so its execution count, its outputs and
  its metadata), and every top-level property but \<^verbatim>\<open>cells\<close> is as it was.
\<close>

theorem replace_changes_source_only:
  assumes parse: "JSON_parse h content = Some doc"
    and arr: "cells_array doc = Some cells"
    and i: "0 \<le> i" "i < int (length cells)"
    and kind: "get_prop (cells ! nat i) ''cell_type'' = Some (JStr ''code'')"
  shows "\<exists>doc' cells'.
           edit_cell h content i t = Inr doc'
         \<and> fst (edit_code_cell h \<lparr>editNotebookFileId = fid, cellIndex = i, newCode = t\<rparr>
                  (Inr content) upload)
             = [FilesGet fid, FilesUpdate fid ipynb_mime (JSON_stringify h doc')]
         \<and> cells_array doc' = Some cells'
         \<and> length cells' = length cells
         \<and> (\<forall>j. j < length cells \<and> j \<noteq> nat i \<longrightarrow> cells' ! j = cells ! j)
         \<and> get_prop (cells' ! nat i) ''source'' = Some (JArr (map JStr (line_fragments t)))
         \<and> (\<forall>key. key \<noteq> ''source'' \<longrightarrow>
               get_prop (cells' ! nat i) key = get_prop (cells ! nat i) key)
         \<and> get_prop (cells' ! nat i) ''execution_count''
             = get_prop (cells ! nat i) ''execution_count''
         \<and> get_prop (cells' ! nat i) ''outputs'' = get_prop (cells ! nat i) ''outputs''
         \<and> get_prop (cells' ! nat i) ''metadata'' = get_prop (cells ! nat i) ''metadata''
         \<and> (\<forall>key. key \<noteq> ''cells'' \<longrightarrow> get_prop doc' key = get_prop doc key)"
proof -
  define cell' where
    "cell' = set_prop (cells ! nat i) ''source'' (JArr (map JStr (line_fragments t)))"
  define cells' where "cells' = cells[nat i := cell']"
  define doc' where "doc' = set_prop doc ''cells'' (JArr cells')"
  let ?a = "\<lparr>editNotebookFileId = fid, cellIndex = i, newCode = t\<rparr>"
  have inside: "nat i < length cells" using i by simp
  have edit: "edit_cell h content i t = Inr doc'"
    unfolding doc'_def cells'_def cell'_def
    by (rule edit_cell_code [OF parse arr i kind])
  have "fst (edit_code_cell h ?a (Inr content) upload) =
          [FilesGet (editNotebookFileId ?a),
           FilesUpdate (editNotebookFileId ?a) ipynb_mime (JSON_stringify h doc')]"
    by (rule edit_code_cell_uploads) (use i edit in simp_all)
  then have calls: "fst (edit_code_cell h ?a (Inr content) upload)
      = [FilesGet fid, FilesUpdate fid ipynb_mime (JSON_stringify h doc')]"
    by simp
  have arr': "cells_array doc' = Some cells'"
    unfolding doc'_def by (rule cells_array_set_prop [OF arr])
  have len: "length cells' = length cells"
    by (simp add: cells'_def)
  have others: "\<forall>j. j < length cells \<and> j \<noteq> nat i \<longrightarrow> cells' ! j = cells ! j"
    by (simp add: cells'_def)
  have at: "cells' ! nat i = cell'"
    using inside by (simp add: cells'_def)
  have source: "get_prop (cells' ! nat i) ''source'' = Some (JArr (map JStr (line_fragments t)))"
    unfolding at cell'_def by (rule set_source_of_code_cell [OF kind])
  have rest: "\<forall>key. key \<noteq> ''source'' \<longrightarrow>
               get_prop (cells' ! nat i) key = get_prop (cells ! nat i) key"
    unfolding at cell'_def by (simp add: get_prop_set_prop_other)
  have three:
    "get_prop (cells' ! nat i) ''execution_count'' = get_prop (cells ! nat i) ''execution_count''"
    "get_prop (cells' ! nat i) ''outputs'' = get_prop (cells ! nat i) ''outputs''"
    "get_prop (cells' ! nat i) ''metadata'' = get_prop (cells ! nat i) ''metadata''"
    unfolding at cell'_def by (simp_all add: get_prop_set_prop_other)
  have top: "\<forall>key. key \<noteq> ''cells'' \<longrightarrow> get_prop doc' key = get_prop doc key"
    unfolding doc'_def by (simp add: get_prop_set_prop_other)
  from edit calls arr' len others source rest three top show ?thesis
    by blast
qed

theorem replace_changes_source_only_witness:
  "JSON_parse example_host example_content = Some example_notebook
   \<and> cells_array example_notebook = Some example_cells
   \<and> (0::int) \<le> 0 \<and> (0::int) < int (length example_cells)
   \<and> get_prop (example_cells ! nat 0) ''cell_type'' = Some (JStr ''code'')
   \<and> (\<exists>doc' cells'.
           edit_cell example_host example_content 0 ''a=2\<newline>b=3'' = Inr doc'
         \<and> fst (edit_code_cell example_host
                  \<lparr>editNotebookFileId = ''nb1'', cellIndex = 0, newCode = ''a=2\<newline>b=3''\<rparr>
                  (Inr example_content) (Inr example_file))
             = [FilesGet ''nb1'',
                FilesUpdate ''nb1'' ipynb_mime (JSON_stringify example_host doc')]
         \<and> cells_array doc' = Some cells'
         \<and> length cells' = length example_cells
         \<and> (\<forall>j. j < length example_cells \<and> j \<noteq> nat 0 \<longrightarrow> cells' ! j = example_cells ! j)
         \<and> get_prop (cells' ! nat 0) ''source''
             = Some (JArr (map JStr (line_fragments ''a=2\<newline>b=3'')))
         \<and> get_prop (cells' ! nat 0) ''outputs'' = get_prop (example_cells ! nat 0) ''outputs''
         \<and> (\<forall>key. key \<noteq> ''cells'' \<longrightarrow> get_prop doc' key = get_prop example_notebook key))"
proof -
  have p: "JSON_parse example_host example_content = Some example_notebook"
    by (simp add: example_host_def)
  have c: "cells_array example_notebook = Some example_cells"
    by (simp add: cells_array_def example_notebook_def)
  have i1: "(0::int) \<le> 0" by simp
  have i2: "(0::int) < int (length example_cells)"
    by (simp add: example_cells_def)
  have kind: "get_prop (example_cells ! nat 0) ''cell_type'' = Some (JStr ''code'')"
    by (simp add: example_cells_def)
  from replace_changes_source_only
         [OF p c i1 i2 kind, of "''a=2\<newline>b=3''" "''nb1''" "Inr example_file"]
  show ?thesis using p c i1 i2 kind by blast
qed

text \<open>
  C4, as stated, fails at the index \<open>-1\<close>: the schema's \<^verbatim>\<open>nonnegative()\<close> rejects it
  before the notebook is downloaded, so no call to Drive is made and the error is the
  one for invalid arguments, which reports no cell count; it is not the error of the
  bounds check.
\<close>

theorem negative_index_counterexample:
  "edit_code_cell example_host \<lparr>editNotebookFileId = ''nb1'', cellIndex = - 1, newCode = ''a=2''\<rparr>
     (Inr example_content) (Inr example_file)
   = ([], Inl (McpError InvalidParams
        ''Failed to edit code cell: Invalid arguments for edit_code_cell: Number must be greater than or equal to 0''))
   \<and> edit_code_cell_try example_host
        \<lparr>editNotebookFileId = ''nb1'', cellIndex = - 1, newCode = ''a=2''\<rparr>
        (Inr example_content) (Inr example_file)
      \<noteq> ([FilesGet ''nb1''],
          Inl (McpError InvalidParams (invalid_index example_host (- 1) (length example_cells))))"
  by (simp add: edit_code_cell_def edit_code_cell_try_def EditCodeCellArgsSchema_def
      example_host_def)

text \<open>
  C4, amended: for a notebook that parses to \<open>doc\<close> with \<open>n\<close> cells, \<^verbatim>\<open>edit_code_cell\<close>
  with an index \<open>i \<ge> n\<close> (so with \<open>i = n\<close>) stops at the bounds check: the error thrown
  there reports \<open>i\<close> and \<open>n\<close>, the download is the only call to Drive, and nothing is
  written. With a negative index the arguments are rejected by their schema: the error
  is the one for invalid arguments, and Drive is not called at all.
\<close>

theorem replace_index_out_of_range:
  assumes parse: "JSON_parse h content = Some doc"
    and arr: "cells_array doc = Some cells"
  shows "(int (length cells) \<le> i \<longrightarrow>
            edit_code_cell_try h \<lparr>editNotebookFileId = fid, cellIndex = i, newCode = t\<rparr>
              (Inr content) upload
            = ([FilesGet fid], Inl (McpError InvalidParams (invalid_index h i (length cells))))
          \<and> edit_code_cell h \<lparr>editNotebookFileId = fid, cellIndex = i, newCode = t\<rparr>
              (Inr content) upload
            = ([FilesGet fid],
               Inl (McpError InternalError
                      (''Failed to edit code cell: ''
                       @ McpError_message h InvalidParams (invalid_index h i (length cells)))))
          \<and> invalid_index h i (length cells)
            = ''Invalid cell index: '' @ Number_toString h (of_int i)
              @ ''. Notebook has '' @ Number_toString h (of_nat (length cells)) @ '' cells.'')
       \<and> (i < 0 \<longrightarrow>
            edit_code_cell h \<lparr>editNotebookFileId = fid, cellIndex = i, newCode = t\<rparr>
              download upload
            = ([], Inl (McpError InvalidParams
                     (''Failed to edit code cell: Invalid arguments for edit_code_cell: ''
                      @ nonnegative_message h))))"
proof (intro conjI impI)
  let ?a = "\<lparr>editNotebookFileId = fid, cellIndex = i, newCode = t\<rparr>"
  {
    assume big: "int (length cells) \<le> i"
    then have nonneg: "0 \<le> cellIndex ?a" by simp
    have thrown: "edit_cell h content (cellIndex ?a) (newCode ?a)
        = Inl (McpError InvalidParams (invalid_index h i (length cells)))"
      using edit_cell_out_of_range [OF parse arr, of i t] big by simp
    show "edit_code_cell_try h ?a (Inr content) upload
            = ([FilesGet fid], Inl (McpError InvalidParams (invalid_index h i (length cells))))"
      using edit_code_cell_thrown(1) [OF nonneg thrown, of upload] by simp
    show "edit_code_cell h ?a (Inr content) upload
            = ([FilesGet fid],
               Inl (McpError InternalError
                      (''Failed to edit code cell: ''
                       @ McpError_message h InvalidParams (invalid_index h i (length cells)))))"
      using edit_code_cell_thrown(2) [OF nonneg thrown, of upload] by simp
    show "invalid_index h i (length cells)
            = ''Invalid cell index: '' @ Number_toString h (of_int i)
              @ ''. Notebook has '' @ Number_toString h (of_nat (length cells)) @ '' cells.''"
      by (simp add: invalid_index_def)
  }
  {
    assume "i < 0"
    then have "edit_code_cell_try h ?a download upload = ([], Inl (ZodError [nonnegative_message h]))"
      by (intro edit_code_cell_rejected) simp
    then show "edit_code_cell h ?a download upload
            = ([], Inl (McpError InvalidParams
                     (''Failed to edit code cell: Invalid arguments for edit_code_cell: ''
                      @ nonnegative_message h)))"
      by (simp add: edit_code_cell_def)
  }
qed

theorem replace_index_out_of_range_witness:
  "JSON_parse example_host example_content = Some example_notebook
   \<and> cells_array example_notebook = Some example_cells
   \<and> int (length example_cells) \<le> 2
   \<and> edit_code_cell_try example_host
        \<lparr>editNotebookFileId = ''nb1'', cellIndex = 2, newCode = ''a=2''\<rparr>
        (Inr example_content) (Inr example_file)
      = ([FilesGet ''nb1''],
         Inl (McpError InvalidParams (invalid_index example_host 2 (length example_cells))))
   \<and> edit_code_cell example_host
        \<lparr>editNotebookFileId = ''nb1'', cellIndex = 2, newCode = ''a=2''\<rparr>
        (Inr example_content) (Inr example_file)
      = ([FilesGet ''nb1''],
         Inl (McpError InternalError
                (''Failed to edit code cell: ''
                 @ McpError_message example_host InvalidParams
                     (invalid_index example_host 2 (length example_cells)))))
   \<and> invalid_index example_host 2 (length example_cells)
      = ''Invalid cell index: 2. Notebook has 2 cells.''
   \<and> (- 3 :: int) < 0
   \<and> edit_code_cell example_host
        \<lparr>editNotebookFileId = ''nb1'', cellIndex = - 3, newCode = ''a=2''\<rparr>
        (Inr example_content) (Inr example_file)
      = ([], Inl (McpError InvalidParams
               (''Failed to edit code cell: Invalid arguments for edit_code_cell: ''
                @ nonnegative_message example_host)))"
proof -
  have p: "JSON_parse example_host example_content = Some example_notebook"
    by (simp add: example_host_def)
  have c: "cells_array example_notebook = Some example_cells"
    by (simp add: cells_array_def example_notebook_def)
  have k: "int (length example_cells) \<le> 2"
    by (simp add: example_cells_def)
  have m: "''Invalid cell index: '' @ Number_toString example_host (of_int 2)
             @ ''. Notebook has '' @ Number_toString example_host (of_nat (length example_cells))
             @ '' cells.''
           = ''Invalid cell index: 2. Notebook has 2 cells.''"
    by (simp add: example_host_def example_cells_def decimal_rat_def decimal.simps)
  have neg: "(- 3 :: int) < 0" by simp
  from replace_index_out_of_range [OF p c, of 2 "''nb1''" "''a=2''" "Inr example_file"] k m
  have high: "edit_code_cell_try example_host
        \<lparr>editNotebookFileId = ''nb1'', cellIndex = 2, newCode = ''a=2''\<rparr>
        (Inr example_content) (Inr example_file)
      = ([FilesGet ''nb1''],
         Inl (McpError InvalidParams (invalid_index example_host 2 (length example_cells))))
   \<and> edit_code_cell example_host
        \<lparr>editNotebookFileId = ''nb1'', cellIndex = 2, newCode = ''a=2''\<rparr>
        (Inr example_content) (Inr example_file)
      = ([FilesGet ''nb1''],
         Inl (McpError InternalError
                (''Failed to edit code cell: ''
                 @ McpError_message example_host InvalidParams
                     (invalid_index example_host 2 (length example_cells)))))
   \<and> invalid_index example_host 2 (length example_cells)
      = ''Invalid cell index: 2. Notebook has 2 cells.''"
    by simp
  from replace_index_out_of_range
         [OF p c, of "- 3" "''nb1''" "''a=2''" "Inr example_file" "Inr example_content"] neg
  have low: "edit_code_cell example_host
        \<lparr>editNotebookFileId = ''nb1'', cellIndex = - 3, newCode = ''a=2''\<rparr>
        (Inr example_content) (Inr example_file)
      = ([], Inl (McpError InvalidParams
               (''Failed to edit code cell: Invalid arguments for edit_code_cell: ''
                @ nonnegative_message example_host)))"
    by simp
  from p c k neg high low show ?thesis by blast
qed

text \<open>
  C5: for a notebook that parses to \<open>doc\<close> with the cell array \<open>cells\<close> and an index \<open>i\<close>
  within it whose cell has a kind other than \<^verbatim>\<open>code\<close>, \<^verbatim>\<open>edit_code_cell\<close> stops at the
  kind check: the error thrown there reports the kind found, the download is the only
  call to Drive, and nothing is written.
\<close>

theorem replace_non_code_cell:
  assumes parse: "JSON_parse h content = Some doc"
    and arr: "cells_array doc = Some cells"
    and i: "0 \<le> i" "i < int (length cells)"
    and kind: "get_prop (cells ! nat i) ''cell_type'' = Some (JStr kind)" "kind \<noteq> ''code''"
  shows "edit_code_cell_try h \<lparr>editNotebookFileId = fid, cellIndex = i, newCode = t\<rparr>
           (Inr content) upload
         = ([FilesGet fid],
            Inl (McpError InvalidParams
                   (''Cell at index '' @ Number_toString h (of_int i)
                    @ '' is not a code cell (type: '' @ kind @ '').'')))
       \<and> edit_code_cell h \<lparr>editNotebookFileId = fid, cellIndex = i, newCode = t\<rparr>
           (Inr content) upload
         = ([FilesGet fid],
            Inl (McpError InternalError
                   (''Failed to edit code cell: ''
                    @ McpError_message h InvalidParams
                        (''Cell at index '' @ Number_toString h (of_int i)
                         @ '' is not a code cell (type: '' @ kind @ '').''))))"
proof -
  let ?a = "\<lparr>editNotebookFileId = fid, cellIndex = i, newCode = t\<rparr>"
  let ?m = "''Cell at index '' @ Number_toString h (of_int i)
            @ '' is not a code cell (type: '' @ kind @ '').''"
  have nonneg: "0 \<le> cellIndex ?a" using i by simp
  have "JStr kind \<noteq> JStr ''code''" using kind(2) by simp
  from edit_cell_wrong_kind [OF parse arr i kind(1) this, of t]
  have thrown: "edit_cell h content (cellIndex ?a) (newCode ?a) = Inl (McpError InvalidParams ?m)"
    by (simp add: not_code_cell_def template_def)
  show ?thesis
    using edit_code_cell_thrown [OF nonneg thrown, of upload] by simp
qed

theorem replace_non_code_cell_witness:
  "JSON_parse example_host example_content = Some example_notebook
   \<and> cells_array example_notebook = Some example_cells
   \<and> (0::int) \<le> 1 \<and> (1::int) < int (length example_cells)
   \<and> get_prop (example_cells ! nat 1) ''cell_type'' = Some (JStr ''markdown'')
   \<and> ''markdown'' \<noteq> ''code''
   \<and> edit_code_cell_try example_host
        \<lparr>editNotebookFileId = ''nb1'', cellIndex = 1, newCode = ''a=2''\<rparr>
        (Inr example_content) (Inr example_file)
      = ([FilesGet ''nb1''],
         Inl (McpError InvalidParams
                (''Cell at index '' @ Number_toString example_host (of_int 1)
                 @ '' is not a code cell (type: '' @ ''markdown'' @ '').'')))"
proof -
  have p: "JSON_parse example_host example_content = Some example_notebook"
    by (simp add: example_host_def)
  have c: "cells_array example_notebook = Some example_cells"
    by (simp add: cells_array_def example_notebook_def)
  have i1: "(0::int) \<le> 1" by simp
  have i2: "(1::int) < int (length example_cells)"
    by (simp add: example_cells_def)
  have kind: "get_prop (example_cells ! nat 1) ''cell_type'' = Some (JStr ''markdown'')"
    by (simp add: example_cells_def)
  have ne: "''markdown'' \<noteq> ''code''" by simp
  from replace_non_code_cell [OF p c i1 i2 kind ne, of "''nb1''" "''a=2''" "Inr example_file"]
  show ?thesis using p c i1 i2 kind ne by blast
qed

subsection \<open>The guard on the downloaded notebook\<close>

text \<open>
  C9: when the downloaded content does not parse, or parses to a value that is not an
  object with an array under \<^verbatim>\<open>cells\<close>, both tools stop before the insertion or the
  replacement, whatever the position or index (as long as the arguments pass their
  schema, without which nothing is downloaded): the error thrown is the one of the parse
  or of the structure guard, the download is the only call to Drive, and nothing is
  written.
\<close>

theorem malformed_notebook_rejected:
  assumes bad: "JSON_parse h content = None
                \<or> (\<exists>doc. JSON_parse h content = Some doc \<and> cells_array doc = None)"
    and pos: "\<forall>p. position a = Some p \<longrightarrow> 0 \<le> p"
    and idx: "0 \<le> cellIndex b"
    and m: "m = (if JSON_parse h content = None then parse_failed else no_cells_array)"
  shows "add_code_cell_try h a (Inr content) upload
           = ([FilesGet (notebookFileId a)], Inl (McpError InternalError m))
       \<and> add_code_cell h a (Inr content) upload
           = ([FilesGet (notebookFileId a)],
              Inl (McpError InternalError
                     (''Failed to add code cell: '' @ McpError_message h InternalError m)))
       \<and> edit_code_cell_try h b (Inr content) upload
           = ([FilesGet (editNotebookFileId b)], Inl (McpError InternalError m))
       \<and> edit_code_cell h b (Inr content) upload
           = ([FilesGet (editNotebookFileId b)],
              Inl (McpError InternalError
                     (''Failed to edit code cell: '' @ McpError_message h InternalError m)))"
proof -
  have pn: "parse_notebook h content = Inl (McpError InternalError m)"
    unfolding m by (rule parse_notebook_bad [OF bad])
  have add: "add_cell h content (code a) (position a) = Inl (McpError InternalError m)"
    by (simp add: add_cell_def pn)
  have edit: "edit_cell h content (cellIndex b) (newCode b) = Inl (McpError InternalError m)"
    by (simp add: edit_cell_def pn)
  show ?thesis
    using add_code_cell_thrown [OF pos add, of upload]
      edit_code_cell_thrown [OF idx edit, of upload]
    by simp
qed

theorem malformed_notebook_rejected_witness:
  "(JSON_parse example_host ''[]'' = None
      \<or> (\<exists>doc. JSON_parse example_host ''[]'' = Some doc \<and> cells_array doc = None))
   \<and> add_code_cell_try example_host
        \<lparr>notebookFileId = ''nb1'', code = ''x'', position = Some 0\<rparr> (Inr ''[]'') (Inr example_file)
      = ([FilesGet ''nb1''], Inl (McpError InternalError no_cells_array))
   \<and> edit_code_cell_try example_host
        \<lparr>editNotebookFileId = ''nb1'', cellIndex = 0, newCode = ''x''\<rparr> (Inr ''[]'') (Inr example_file)
      = ([FilesGet ''nb1''], Inl (McpError InternalError no_cells_array))
   \<and> (JSON_parse example_host ''{'' = None
      \<or> (\<exists>doc. JSON_parse example_host ''{'' = Some doc \<and> cells_array doc = None))
   \<and> add_code_cell_try example_host
        \<lparr>notebookFileId = ''nb1'', code = ''x'', position = None\<rparr> (Inr ''{'') (Inr example_file)
      = ([FilesGet ''nb1''], Inl (McpError InternalError parse_failed))
   \<and> edit_code_cell_try example_host
        \<lparr>editNotebookFileId = ''nb1'', cellIndex = 5, newCode = ''x''\<rparr> (Inr ''{'') (Inr example_file)
      = ([FilesGet ''nb1''], Inl (McpError InternalError parse_failed))"
proof -
  let ?a = "\<lparr>notebookFileId = ''nb1'', code = ''x'', position = Some (0::int)\<rparr>"
  let ?b = "\<lparr>editNotebookFileId = ''nb1'', cellIndex = 0, newCode = ''x''\<rparr>"
  let ?a' = "\<lparr>notebookFileId = ''nb1'', code = ''x'', position = None\<rparr>"
  let ?b' = "\<lparr>editNotebookFileId = ''nb1'', cellIndex = 5, newCode = ''x''\<rparr>"
  have parsed: "JSON_parse example_host ''[]'' = Some (JArr [])"
    by (simp add: example_host_def example_content_def)
  have bad: "JSON_parse example_host ''[]'' = None
      \<or> (\<exists>doc. JSON_parse example_host ''[]'' = Some doc \<and> cells_array doc = None)"
    by (simp add: parsed cells_array_def)
  have pos: "\<forall>p. position ?a = Some p \<longrightarrow> 0 \<le> p" by simp
  have idx: "0 \<le> cellIndex ?b" by simp
  have m: "no_cells_array
           = (if JSON_parse example_host ''[]'' = None then parse_failed else no_cells_array)"
    by (simp add: parsed)
  have unparsed: "JSON_parse example_host ''{'' = None"
    by (simp add: example_host_def example_content_def)
  then have bad': "JSON_parse example_host ''{'' = None
      \<or> (\<exists>doc. JSON_parse example_host ''{'' = Some doc \<and> cells_array doc = None)"
    by simp
  have pos': "\<forall>p. position ?a' = Some p \<longrightarrow> 0 \<le> p" by simp
  have idx': "0 \<le> cellIndex ?b'" by simp
  have m': "parse_failed
           = (if JSON_parse example_host ''{'' = None then parse_failed else no_cells_array)"
    by (simp add: unparsed)
  from malformed_notebook_rejected [OF bad pos idx m, of "Inr example_file"]
    malformed_notebook_rejected [OF bad' pos' idx' m', of "Inr example_file"]
  show ?thesis using bad bad' by simp
qed

subsection \<open>The two scenarios of the specification, run on the example\<close>

text \<open>
  Inserting \<^verbatim>\<open>print(1)\<close> at position 1 of the example notebook puts the new cell between
  the code cell and the markdown cell; replacing cell 0 by two lines gives it the
  fragments \<^verbatim>\<open>a=2\<close> with its line break and \<^verbatim>\<open>b=3\<close>, and leaves its outputs and its
  execution count.
\<close>

lemma scenario_insert:
  "add_cell example_host example_content ''print(1)'' (Some 1)
   = Inr (JObj [(''cells'',
                 JArr [example_cells ! 0,
                       JObj [(''cell_type'', JStr ''code''),
                             (''execution_count'', JNull),
                             (''metadata'', JObj []),
                             (''outputs'', JArr []),
                             (''source'', JArr [JStr ''print(1)''])],
                       example_cells ! 1]),
                (''metadata'', JObj []), (''nbformat'', JNum 4)])"
  by (simp add: add_cell_def parse_notebook_def example_host_def cells_array_def
      example_notebook_def example_cells_def insert_cell_def newCell_def
      line_fragments_def strip_nl_def)

lemma scenario_replace:
  "edit_cell example_host example_content 0 ''a=2\<newline>b=3''
   = Inr (JObj [(''cells'',
                 JArr [JObj [(''cell_type'', JStr ''code''),
                             (''execution_count'', JNum 1),
                             (''metadata'', JObj []),
                             (''outputs'', JArr [JStr ''1'']),
                             (''source'', JArr [JStr ''a=2\<newline>'', JStr ''b=3''])],
                       example_cells ! 1]),
                (''metadata'', JObj []), (''nbformat'', JNum 4)])"
  by (simp add: edit_cell_def parse_notebook_def example_host_def cells_array_def
      example_notebook_def example_cells_def line_fragments_def strip_nl_def)

end
